theory Spec2Isabelle
  imports Main "HOL-Library.Multiset"
begin

section \<open>Data model\<close>

text \<open>
  The two Flask applications of the repository, \<^verbatim>\<open>app.py\<close> and \<^verbatim>\<open>app2.py\<close>, are
  request handlers around three collaborators whose code is not part of the sources at
  hand: the vector store (\<^verbatim>\<open>utils.vector_store\<close>), the chunker
  (\<^verbatim>\<open>utils.document_processor.process_pdf\<close>) and the answer generator
  (\<^verbatim>\<open>utils.groq_client\<close>). The handlers are embedded as functions that take the
  collaborators as parameters, thread the mutable state (vector store, session) through
  explicitly, and return the HTTP response together with the list of collaborator
  calls they made, in order.

  Strings are byte strings. Values that cross the collaborator boundary untyped
  (retrieved documents, the generator's answer) are Python values.
\<close>

datatype pyval =
    PNone
  | PBool bool
  | PInt int
  | PStr string
  | PList "pyval list"
  | PDict "(string \<times> pyval) list"

text \<open>An exception is represented by the text that \<^verbatim>\<open>str(e)\<close> yields for it.\<close>

datatype exception = Exception string

fun str_of_exception :: "exception \<Rightarrow> string" where
  "str_of_exception (Exception msg) = msg"

text \<open>
  \<^verbatim>\<open>jsonify(obj), status\<close>: the JSON object as an association list in the order the
  handler writes its keys, and the status code (200 when the handler gives none).
\<close>

record response =
  status :: nat
  body :: "(string \<times> pyval) list"

text \<open>
  A chunk as stored by the vector store is a dictionary of text fields
  (\<^verbatim>\<open>content\<close>, \<^verbatim>\<open>source\<close>, \<^verbatim>\<open>product\<close>); a field may be absent. The store exposes
  the attribute \<^verbatim>\<open>documents\<close>; whatever else it holds (embeddings) is the extension part
  of the record.
\<close>

type_synonym chunk = "(string \<times> string) list"

record vector_store =
  documents :: "chunk list"

text \<open>The JSON object of a query request: \<^verbatim>\<open>request.json\<close>, with text fields.\<close>

type_synonym json_object = "(string \<times> string) list"

text \<open>
  The Flask session. What is stored for a client between two requests is a dictionary,
  of which the handlers use the key \<^verbatim>\<open>history\<close> only. During a request the handler works
  on a session object: the dictionary loaded from the store, and the flag \<^verbatim>\<open>modified\<close>.
  Flask sets the flag when a key of the session is assigned
  (\<^verbatim>\<open>session['history'] = ...\<close>); it does not notice a change inside a value, such as an
  \<^verbatim>\<open>append\<close> to a list the session holds. At the end of the request the dictionary is
  stored when the flag is set, and what was stored before stays otherwise. The
  application never sets \<^verbatim>\<open>session.modified\<close> nor \<^verbatim>\<open>session.permanent\<close> itself.
\<close>

type_synonym session = "string \<rightharpoonup> string list"

record flask_session =
  contents :: session
  modified :: bool

definition open_session :: "session \<Rightarrow> flask_session" where
  "open_session stored = \<lparr>contents = stored, modified = False\<rparr>"

definition save_session :: "session \<Rightarrow> flask_session \<Rightarrow> session" where
  "save_session stored sess = (if modified sess then contents sess else stored)"

text \<open>
  An upload request: the name of the file part (\<^verbatim>\<open>request.files['file'].filename\<close>,
  \<open>None\<close> when there is no file part) and the form field \<^verbatim>\<open>product_name\<close>.
\<close>

record upload_request =
  file_filename :: "string option"
  form_product_name :: "string option"

text \<open>The calls a handler makes to its collaborators, with their arguments.\<close>

datatype event =
    SearchCall string nat
  | SearchByProductCall string string nat
  | GenerateFromContext string string
  | GenerateFromDocs string "pyval list" "string option"
  | SaveCall string
  | ProcessPdfCall string string
  | AddDocumentsCall "chunk list"

text \<open>
  The collaborators. A call of the vector store may raise and may change the store, so
  it returns both an outcome and the store afterwards. \<^verbatim>\<open>app.py\<close> calls
  \<^verbatim>\<open>generate_response(query_text, context)\<close> with the context as one string and expects
  a text back; \<^verbatim>\<open>app2.py\<close> calls
  \<^verbatim>\<open>generate_response(query_text, similar_docs, product_name=product_filter)\<close> and reads
  the result as a dictionary. \<open>py_repr\<close> is what \<^verbatim>\<open>str()\<close> yields for a Python value
  that is not a string. \<open>set_order\<close> is the order in which a Python \<^verbatim>\<open>set\<close> is
  iterated, which the language leaves open.
\<close>

record 'vs services =
  search :: "'vs \<Rightarrow> string \<Rightarrow> nat \<Rightarrow> (exception + pyval list) \<times> 'vs"
  search_by_product :: "'vs \<Rightarrow> string \<Rightarrow> string \<Rightarrow> nat \<Rightarrow> (exception + pyval list) \<times> 'vs"
  add_documents :: "'vs \<Rightarrow> chunk list \<Rightarrow> exception option \<times> 'vs"
  process_pdf :: "string \<Rightarrow> string \<Rightarrow> exception + chunk list"
  generate_response_context :: "string \<Rightarrow> string \<Rightarrow> exception + pyval"
  generate_response_docs :: "string \<Rightarrow> pyval list \<Rightarrow> string option \<Rightarrow> exception + (string \<times> pyval) list"
  save :: "string \<Rightarrow> exception option"
  secure_filename :: "string \<Rightarrow> string"
  path_join :: "string \<Rightarrow> string \<Rightarrow> string"
  splitext :: "string \<Rightarrow> string \<times> string"
  UPLOAD_FOLDER :: string
  py_repr :: "pyval \<Rightarrow> string"
  set_order :: "string list \<Rightarrow> string list"

section \<open>Python primitives\<close>

definition nl :: string where
  "nl = [CHR 0x0A]"

text \<open>\<^verbatim>\<open>str(v)\<close>, as an f-string applies it to an interpolated value.\<close>

fun py_str :: "(pyval \<Rightarrow> string) \<Rightarrow> pyval \<Rightarrow> string" where
  "py_str r (PStr s) = s"
| "py_str r v = r v"

text \<open>\<^verbatim>\<open>sep.join(xs)\<close> on a list of strings.\<close>

fun join :: "string \<Rightarrow> string list \<Rightarrow> string" where
  "join sep [] = []"
| "join sep [x] = x"
| "join sep (x # y # ys) = x @ sep @ join sep (y # ys)"

text \<open>\<^verbatim>\<open>d.get(key, default)\<close>.\<close>

definition dict_get :: "('k \<times> 'v) list \<Rightarrow> 'k \<Rightarrow> 'v \<Rightarrow> 'v" where
  "dict_get d key dflt = (case map_of d key of None \<Rightarrow> dflt | Some v \<Rightarrow> v)"

section \<open>The query handler of app.py\<close>

text \<open>
  The loop of lines 81 to 85, with the two accumulators \<^verbatim>\<open>context\<close> and \<^verbatim>\<open>sources\<close>:
  a document contributes when it is a dictionary that has both keys.
\<close>

fun context_loop :: "(pyval \<Rightarrow> string) \<Rightarrow> pyval list \<Rightarrow> string \<Rightarrow> pyval list \<Rightarrow> string \<times> pyval list" where
  "context_loop r [] context sources = (context, sources)"
| "context_loop r (PDict d # docs) context sources =
     (case map_of d ''content'' of
        None \<Rightarrow> context_loop r docs context sources
      | Some content \<Rightarrow>
          (case map_of d ''source'' of
             None \<Rightarrow> context_loop r docs context sources
           | Some source \<Rightarrow>
               context_loop r docs
                 (context @ nl @ ''From '' @ py_str r source @ '':'' @ nl @ py_str r content @ nl @ nl)
                 (sources @ [source])))"
| "context_loop r (doc # docs) context sources = context_loop r docs context sources"

definition app_fallback :: "exception \<Rightarrow> response" where
  "app_fallback e =
     \<lparr>status = 500,
      body = [(''response'', PStr (''I'm sorry, I encountered an error while processing your query. Error: '' @ str_of_exception e)),
              (''sources'', PList [])]\<rparr>"

definition app_query ::
  "'vs services \<Rightarrow> 'vs \<Rightarrow> json_object \<Rightarrow> (exception + response) \<times> 'vs \<times> event list" where
  "app_query sv vs data =
     (let query_text = dict_get data ''query'' [] in
      if query_text = [] then
        (Inr \<lparr>status = 400, body = [(''error'', PStr ''Query is empty'')]\<rparr>, vs, [])
      else
        (case search sv vs query_text 3 of
           (Inl e, vs') \<Rightarrow> (Inr (app_fallback e), vs', [SearchCall query_text 3])
         | (Inr similar_docs, vs') \<Rightarrow>
             (let (context, sources) =
                    (if similar_docs \<noteq> [] then context_loop (py_repr sv) similar_docs [] []
                     else ([], []))
              in case generate_response_context sv query_text context of
                   Inl e \<Rightarrow>
                     (Inr (app_fallback e), vs',
                      [SearchCall query_text 3, GenerateFromContext query_text context])
                 | Inr response \<Rightarrow>
                     (Inr \<lparr>status = 200,
                           body = [(''response'', PStr (py_str (py_repr sv) response)),
                                   (''sources'', PList sources)]\<rparr>,
                      vs',
                      [SearchCall query_text 3, GenerateFromContext query_text context]))))"

section \<open>The query handler of app2.py\<close>

text \<open>The list under \<^verbatim>\<open>history\<close> in the session object, empty when there is none.\<close>

definition session_history :: "flask_session \<Rightarrow> string list" where
  "session_history sess = (case contents sess ''history'' of None \<Rightarrow> [] | Some h \<Rightarrow> h)"

text \<open>
  Lines 109 to 115 on the session object. Line 110 assigns an empty history when the
  session has none, which sets the flag. Line 113 appends the query to the list in
  place: the list the session holds grows, the flag is untouched. Line 115 assigns the
  last five entries (\<^verbatim>\<open>session['history'][-5:]\<close>) when there are more than five, which
  sets the flag.
\<close>

definition append_history :: "flask_session \<Rightarrow> string \<Rightarrow> flask_session" where
  "append_history sess query_text =
     (let sess1 =
            (if contents sess ''history'' = None
             then sess\<lparr>contents := (contents sess)(''history'' \<mapsto> []), modified := True\<rparr>
             else sess);
          history = session_history sess1 @ [query_text];
          sess2 = sess1\<lparr>contents := (contents sess1)(''history'' \<mapsto> history)\<rparr>
      in if length history > 5
         then sess2\<lparr>contents := (contents sess2)(''history'' \<mapsto> drop (length history - 5) history),
                    modified := True\<rparr>
         else sess2)"

text \<open>
  Lines 118 to 121, on the history as it is after the append:
  \<^verbatim>\<open>" ".join(session['history'][:-1])\<close>, two newlines, the marker and the query.
\<close>

definition enhance_query :: "string list \<Rightarrow> string \<Rightarrow> string" where
  "enhance_query history query_text =
     (if length history > 1
      then join '' '' (butlast history) @ nl @ nl @ ''Current question: '' @ query_text
      else query_text)"

text \<open>\<^verbatim>\<open>str(KeyError(key))\<close> is the key in quotes.\<close>

definition key_error :: "string \<Rightarrow> exception" where
  "key_error key = Exception ([CHR 0x27] @ key @ [CHR 0x27])"

definition app2_fallback :: "exception \<Rightarrow> response" where
  "app2_fallback e =
     \<lparr>status = 500,
      body = [(''response'', PStr ''I'm sorry, there was an error processing your request.''),
              (''error'', PStr (str_of_exception e))]\<rparr>"

definition not_found_response :: response where
  "not_found_response =
     \<lparr>status = 200,
      body = [(''response'', PStr ''I couldn't find any relevant information in the manuals. Please try rephrasing your question or check if manuals for this product have been uploaded.''),
              (''sources'', PList [])]\<rparr>"

text \<open>
  Lines 126 to 129: the product-scoped search when the request names a product
  (\<^verbatim>\<open>if product_filter:\<close> holds for a non-empty text), the global search otherwise.
\<close>

definition app2_search ::
  "'vs services \<Rightarrow> 'vs \<Rightarrow> string \<Rightarrow> string option \<Rightarrow> nat \<Rightarrow>
     ((exception + pyval list) \<times> 'vs) \<times> event" where
  "app2_search sv vs enhanced_query product_filter num_docs =
     (case product_filter of
        None \<Rightarrow> (search sv vs enhanced_query num_docs, SearchCall enhanced_query num_docs)
      | Some p \<Rightarrow>
          if p \<noteq> [] then
            (search_by_product sv vs enhanced_query p num_docs,
             SearchByProductCall enhanced_query p num_docs)
          else (search sv vs enhanced_query num_docs, SearchCall enhanced_query num_docs))"

definition app2_query ::
  "'vs services \<Rightarrow> 'vs \<Rightarrow> flask_session \<Rightarrow> json_object \<Rightarrow>
     (exception + response) \<times> 'vs \<times> flask_session \<times> event list" where
  "app2_query sv vs sess data =
     (let query_text = dict_get data ''query'' [];
          product_filter = map_of data ''product''
      in
      if query_text = [] then
        (Inr \<lparr>status = 400, body = [(''error'', PStr ''Query is empty'')]\<rparr>, vs, sess, [])
      else
        (let sess' = append_history sess query_text;
             enhanced_query = enhance_query (session_history sess') query_text;
             num_docs = 5
         in case app2_search sv vs enhanced_query product_filter num_docs of
              ((Inl e, vs'), call) \<Rightarrow> (Inr (app2_fallback e), vs', sess', [call])
            | ((Inr similar_docs, vs'), call) \<Rightarrow>
                if similar_docs = [] then (Inr not_found_response, vs', sess', [call])
                else
                  (let calls = [call, GenerateFromDocs query_text similar_docs product_filter]
                   in case generate_response_docs sv query_text similar_docs product_filter of
                        Inl e \<Rightarrow> (Inr (app2_fallback e), vs', sess', calls)
                      | Inr response_data \<Rightarrow>
                          (case map_of response_data ''answer'' of
                             None \<Rightarrow> (Inr (app2_fallback (key_error ''answer'')), vs', sess', calls)
                           | Some answer \<Rightarrow>
                               (case map_of response_data ''sources'' of
                                  None \<Rightarrow>
                                    (Inr (app2_fallback (key_error ''sources'')), vs', sess', calls)
                                | Some sources \<Rightarrow>
                                    (Inr \<lparr>status = 200,
                                          body = [(''response'', answer), (''sources'', sources)]\<rparr>,
                                     vs', sess', calls))))))"

text \<open>
  A query request of app2.py as the client's session sees it: Flask opens the session
  object on what is stored, the handler runs, and Flask stores the session object when
  it is flagged as modified.
\<close>

definition app2_query_request ::
  "'vs services \<Rightarrow> 'vs \<Rightarrow> session \<Rightarrow> json_object \<Rightarrow>
     (exception + response) \<times> 'vs \<times> session \<times> event list" where
  "app2_query_request sv vs stored data =
     (case app2_query sv vs (open_session stored) data of
        (r, vs', sess', calls) \<Rightarrow> (r, vs', save_session stored sess', calls))"

section \<open>The upload handlers\<close>

text \<open>\<^verbatim>\<open>config.ALLOWED_EXTENSIONS\<close>.\<close>

definition ALLOWED_EXTENSIONS :: "string set" where
  "ALLOWED_EXTENSIONS = {''pdf'', ''txt'', ''docx''}"

text \<open>\<^verbatim>\<open>str.lower\<close> on the letters of ASCII.\<close>

definition lower_char :: "char \<Rightarrow> char" where
  "lower_char c =
     (case map_of (zip ''ABCDEFGHIJKLMNOPQRSTUVWXYZ'' ''abcdefghijklmnopqrstuvwxyz'') c of
        None \<Rightarrow> c
      | Some l \<Rightarrow> l)"

definition lower :: "string \<Rightarrow> string" where
  "lower s = map lower_char s"

text \<open>\<^verbatim>\<open>filename.rsplit('.', 1)[1]\<close> for a name with a dot: what follows the last dot.\<close>

definition rsplit_dot_last :: "string \<Rightarrow> string" where
  "rsplit_dot_last filename = rev (takeWhile (\<lambda>c. c \<noteq> CHR ''.'') (rev filename))"

definition allowed_file :: "string \<Rightarrow> bool" where
  "allowed_file filename =
     (CHR ''.'' \<in> set filename \<and> lower (rsplit_dot_last filename) \<in> ALLOWED_EXTENSIONS)"

text \<open>\<^verbatim>\<open>str(n)\<close> for the chunk count in the success message of app2.py.\<close>

fun str_nat :: "nat \<Rightarrow> string" where
  "str_nat n =
     (if n < 10 then [''0123456789'' ! n]
      else str_nat (n div 10) @ [''0123456789'' ! (n mod 10)])"

declare str_nat.simps [simp del]

definition error_response :: "nat \<Rightarrow> string \<Rightarrow> response" where
  "error_response code msg = \<lparr>status = code, body = [(''error'', PStr msg)]\<rparr>"

text \<open>
  \<^verbatim>\<open>upload_file\<close> of app.py. The file is saved before the \<^verbatim>\<open>try\<close> block, so an
  exception of \<^verbatim>\<open>file.save\<close> leaves the handler (\<open>Inl\<close>); exceptions of
  \<^verbatim>\<open>process_pdf\<close> and \<^verbatim>\<open>add_documents\<close> become a 500 response. The test
  \<^verbatim>\<open>if file and ...\<close> holds for the file part at this point, whose name is not empty.
\<close>

definition app_upload_file ::
  "'vs services \<Rightarrow> 'vs \<Rightarrow> upload_request \<Rightarrow> (exception + response) \<times> 'vs \<times> event list" where
  "app_upload_file sv vs req =
     (case file_filename req of
        None \<Rightarrow> (Inr (error_response 400 ''No file part''), vs, [])
      | Some name \<Rightarrow>
          if name = [] then (Inr (error_response 400 ''No file selected''), vs, [])
          else if allowed_file name then
            (let filename = secure_filename sv name;
                 filepath = path_join sv (UPLOAD_FOLDER sv) filename
             in case save sv filepath of
                  Some e \<Rightarrow> (Inl e, vs, [SaveCall filepath])
                | None \<Rightarrow>
                    (let product_name =
                           (case form_product_name req of
                              None \<Rightarrow> fst (splitext sv filename)
                            | Some p \<Rightarrow> p)
                     in case process_pdf sv filepath product_name of
                          Inl e \<Rightarrow>
                            (Inr (error_response 500 (str_of_exception e)), vs,
                             [SaveCall filepath, ProcessPdfCall filepath product_name])
                        | Inr chunks \<Rightarrow>
                            (case add_documents sv vs chunks of
                               (Some e, vs') \<Rightarrow>
                                 (Inr (error_response 500 (str_of_exception e)), vs',
                                  [SaveCall filepath, ProcessPdfCall filepath product_name,
                                   AddDocumentsCall chunks])
                             | (None, vs') \<Rightarrow>
                                 (Inr \<lparr>status = 200,
                                       body = [(''success'', PBool True),
                                               (''message'',
                                                PStr (''File '' @ filename @ '' processed successfully''))]\<rparr>,
                                  vs',
                                  [SaveCall filepath, ProcessPdfCall filepath product_name,
                                   AddDocumentsCall chunks]))))
          else (Inr (error_response 400 ''File type not allowed''), vs, []))"

text \<open>
  \<^verbatim>\<open>upload_file\<close> of app2.py: here \<^verbatim>\<open>file.save\<close> is inside the \<^verbatim>\<open>try\<close> block too.
\<close>

definition app2_upload_file ::
  "'vs services \<Rightarrow> 'vs \<Rightarrow> upload_request \<Rightarrow> (exception + response) \<times> 'vs \<times> event list" where
  "app2_upload_file sv vs req =
     (case file_filename req of
        None \<Rightarrow> (Inr (error_response 400 ''No file part''), vs, [])
      | Some name \<Rightarrow>
          if name = [] then (Inr (error_response 400 ''No file selected''), vs, [])
          else if allowed_file name then
            (let filename = secure_filename sv name;
                 filepath = path_join sv (UPLOAD_FOLDER sv) filename
             in case save sv filepath of
                  Some e \<Rightarrow>
                    (Inr (error_response 500 (str_of_exception e)), vs, [SaveCall filepath])
                | None \<Rightarrow>
                    (let product_name =
                           (case form_product_name req of
                              None \<Rightarrow> fst (splitext sv filename)
                            | Some p \<Rightarrow> p)
                     in case process_pdf sv filepath product_name of
                          Inl e \<Rightarrow>
                            (Inr (error_response 500 (str_of_exception e)), vs,
                             [SaveCall filepath, ProcessPdfCall filepath product_name])
                        | Inr chunks \<Rightarrow>
                            (case add_documents sv vs chunks of
                               (Some e, vs') \<Rightarrow>
                                 (Inr (error_response 500 (str_of_exception e)), vs',
                                  [SaveCall filepath, ProcessPdfCall filepath product_name,
                                   AddDocumentsCall chunks])
                             | (None, vs') \<Rightarrow>
                                 (Inr \<lparr>status = 200,
                                       body = [(''success'', PBool True),
                                               (''message'',
                                                PStr (''File '' @ filename @ '' processed with ''
                                                      @ str_nat (length chunks) @ '' chunks''))]\<rparr>,
                                  vs',
                                  [SaveCall filepath, ProcessPdfCall filepath product_name,
                                   AddDocumentsCall chunks]))))
          else (Inr (error_response 400 ''File type not allowed''), vs, []))"

section \<open>The product listing of app2.py\<close>

text \<open>
  \<^verbatim>\<open>products.add(p)\<close> on a Python set, kept as the list of its elements without
  repetition.
\<close>

definition set_add :: "'a \<Rightarrow> 'a list \<Rightarrow> 'a list" where
  "set_add x s = (if x \<in> set s then s else s @ [x])"

text \<open>
  The loop of lines 194 to 196: a document contributes its product when it has the key
  and the value is not empty.
\<close>

fun products_loop :: "chunk list \<Rightarrow> string list \<Rightarrow> string list" where
  "products_loop [] products = products"
| "products_loop (doc # docs) products =
     (case map_of doc ''product'' of
        None \<Rightarrow> products_loop docs products
      | Some p \<Rightarrow>
          if p \<noteq> [] then products_loop docs (set_add p products)
          else products_loop docs products)"

definition list_products ::
  "('a vector_store_scheme) services \<Rightarrow> 'a vector_store_scheme \<Rightarrow>
     (exception + response) \<times> 'a vector_store_scheme" where
  "list_products sv vs =
     (Inr \<lparr>status = 200,
           body = [(''products'',
                    PList (map PStr (set_order sv (products_loop (documents vs) []))))]\<rparr>,
      vs)"

section \<open>Notions used to state the properties\<close>

text \<open>
  A retrieved result is well shaped when it is a dictionary that has both the key
  \<^verbatim>\<open>content\<close> and the key \<^verbatim>\<open>source\<close>; \<open>doc_source\<close> reads its source.
\<close>

fun well_shaped :: "pyval \<Rightarrow> bool" where
  "well_shaped (PDict d) = (map_of d ''content'' \<noteq> None \<and> map_of d ''source'' \<noteq> None)"
| "well_shaped v = False"

fun doc_source :: "pyval \<Rightarrow> pyval" where
  "doc_source (PDict d) = (case map_of d ''source'' of None \<Rightarrow> PNone | Some s \<Rightarrow> s)"
| "doc_source v = PNone"

text \<open>
  Stable deduplication as the specification words it: every element once, in the order
  of first occurrence.
\<close>

fun dedup_seen :: "'a list \<Rightarrow> 'a list \<Rightarrow> 'a list" where
  "dedup_seen seen [] = []"
| "dedup_seen seen (x # xs) =
     (if x \<in> set seen then dedup_seen seen xs else x # dedup_seen (x # seen) xs)"

definition stable_dedup :: "'a list \<Rightarrow> 'a list" where
  "stable_dedup xs = dedup_seen [] xs"

text \<open>The text a call hands to the index, and the question a call hands to the generator.\<close>

fun search_text :: "event \<Rightarrow> string option" where
  "search_text (SearchCall q k) = Some q"
| "search_text (SearchByProductCall q p k) = Some q"
| "search_text ev = None"


fun is_add_documents :: "event \<Rightarrow> bool" where
  "is_add_documents (AddDocumentsCall cs) = True"
| "is_add_documents ev = False"

section \<open>Example collaborators\<close>

text \<open>
  A small stand-in for each collaborator, to run the handlers on concrete requests: an
  index that returns its first \<open>k\<close> documents (of the product asked for), a chunker that
  rejects an empty product name, and a generator that answers with a fixed text.
\<close>

definition chunk_value :: "chunk \<Rightarrow> pyval" where
  "chunk_value c = PDict (map (map_prod id PStr) c)"

definition chunk_has_product :: "string \<Rightarrow> chunk \<Rightarrow> bool" where
  "chunk_has_product p c = (map_of c ''product'' = Some p)"

definition example_search ::
  "vector_store \<Rightarrow> string \<Rightarrow> nat \<Rightarrow> (exception + pyval list) \<times> vector_store" where
  "example_search vs q k = (Inr (take k (map chunk_value (documents vs))), vs)"

definition example_search_by_product ::
  "vector_store \<Rightarrow> string \<Rightarrow> string \<Rightarrow> nat \<Rightarrow> (exception + pyval list) \<times> vector_store" where
  "example_search_by_product vs q p k =
     (Inr (take k (map chunk_value (filter (chunk_has_product p) (documents vs)))), vs)"

definition failing_search ::
  "vector_store \<Rightarrow> string \<Rightarrow> nat \<Rightarrow> (exception + pyval list) \<times> vector_store" where
  "failing_search vs q k = (Inl (Exception ''index unavailable''), vs)"

definition example_add_documents ::
  "vector_store \<Rightarrow> chunk list \<Rightarrow> exception option \<times> vector_store" where
  "example_add_documents vs chunks = (None, vs\<lparr>documents := documents vs @ chunks\<rparr>)"

definition example_process_pdf :: "string \<Rightarrow> string \<Rightarrow> exception + chunk list" where
  "example_process_pdf filepath product_name =
     (if product_name = [] then Inl (Exception ''no text found'')
      else Inr [[(''content'', ''Press the power button for 5 seconds to reset.''),
                 (''source'', filepath), (''product'', product_name)]])"

definition example_generate_context :: "string \<Rightarrow> string \<Rightarrow> exception + pyval" where
  "example_generate_context question context = Inr (PStr ''Hold the power button.'')"

definition example_generate_docs ::
  "string \<Rightarrow> pyval list \<Rightarrow> string option \<Rightarrow> exception + (string \<times> pyval) list" where
  "example_generate_docs question docs product =
     Inr [(''answer'', PStr ''Hold the power button.''), (''sources'', PList (map doc_source docs))]"

definition example_save :: "string \<Rightarrow> exception option" where
  "example_save filepath = None"

definition example_secure_filename :: "string \<Rightarrow> string" where
  "example_secure_filename name = name"

definition example_path_join :: "string \<Rightarrow> string \<Rightarrow> string" where
  "example_path_join dir name = dir @ ''/'' @ name"

definition example_splitext :: "string \<Rightarrow> string \<times> string" where
  "example_splitext name =
     (rev (drop 1 (dropWhile (\<lambda>c. c \<noteq> CHR ''.'') (rev name))), CHR ''.'' # rsplit_dot_last name)"

definition example_repr :: "pyval \<Rightarrow> string" where
  "example_repr v = ''?''"

definition example_services :: "vector_store services" where
  "example_services =
     \<lparr>search = example_search,
      search_by_product = example_search_by_product,
      add_documents = example_add_documents,
      process_pdf = example_process_pdf,
      generate_response_context = example_generate_context,
      generate_response_docs = example_generate_docs,
      save = example_save,
      secure_filename = example_secure_filename,
      path_join = example_path_join,
      splitext = example_splitext,
      UPLOAD_FOLDER = ''data/manuals'',
      py_repr = example_repr,
      set_order = rev\<rparr>"

definition malformed_search ::
  "vector_store \<Rightarrow> string \<Rightarrow> nat \<Rightarrow> (exception + pyval list) \<times> vector_store" where
  "malformed_search vs q k =
     (Inr [PDict [(''content'', PStr ''Press the power button.''), (''source'', PStr ''a.pdf'')],
           PStr ''stray text'',
           PDict [(''content'', PStr ''No source here.'')]],
      vs)"

definition malformed_services :: "vector_store services" where
  "malformed_services = example_services\<lparr>search := malformed_search\<rparr>"

definition failing_services :: "vector_store services" where
  "failing_services = example_services\<lparr>search := failing_search\<rparr>"

definition empty_index :: vector_store where
  "empty_index = \<lparr>documents = []\<rparr>"

definition example_index :: vector_store where
  "example_index =
     \<lparr>documents =
        [[(''content'', ''Press the power button for 5 seconds to reset.''),
          (''source'', ''a.pdf''), (''product'', ''DreamStation'')],
         [(''content'', ''Replace the filter every month.''),
          (''source'', ''b.pdf''), (''product'', ''IntelliVue'')],
         [(''content'', ''Hold both buttons to pair.''),
          (''source'', ''a.pdf''), (''product'', ''DreamStation'')],
         [(''content'', ''Draft page.''), (''source'', ''c.pdf''), (''product'', [])]]\<rparr>"

definition no_session :: session where
  "no_session = Map.empty"

definition one_turn_session :: session where
  "one_turn_session = [''history'' \<mapsto> [''what is X'']]"

definition two_turn_session :: session where
  "two_turn_session = [''history'' \<mapsto> [''what is X'', ''how to reset'']]"

lemmas example_defs =
  dict_get_def example_services_def failing_services_def malformed_services_def
  example_search_def example_search_by_product_def failing_search_def malformed_search_def
  example_add_documents_def example_process_pdf_def example_generate_context_def
  example_generate_docs_def example_save_def example_secure_filename_def
  example_path_join_def example_splitext_def example_repr_def example_index_def
  empty_index_def chunk_value_def chunk_has_product_def no_session_def
  one_turn_session_def two_turn_session_def nl_def
  open_session_def

section \<open>The context loop of app.py\<close>

lemma context_loop_sources:
  "snd (context_loop r docs c s) = s @ map doc_source (filter well_shaped docs)"
  by (induction r docs c s rule: context_loop.induct) (auto split: option.splits)

lemma context_loop_skip:
  "\<not> well_shaped doc \<Longrightarrow> context_loop r (doc # ys) c s = context_loop r ys c s"
  by (cases doc) (auto split: option.splits)

lemma context_loop_append:
  "context_loop r (xs @ ys) c s =
     (case context_loop r xs c s of (c', s') \<Rightarrow> context_loop r ys c' s')"
  by (induction r xs c s rule: context_loop.induct) (auto split: option.splits)

lemma context_loop_drop:
  "\<not> well_shaped doc \<Longrightarrow>
     context_loop r (xs @ doc # ys) c s = context_loop r (xs @ ys) c s"
  by (simp add: context_loop_append context_loop_skip split: prod.splits)

lemma app_query_success:
  assumes q: "dict_get data ''query'' [] = q" "q \<noteq> []"
    and s: "search sv vs q 3 = (Inr docs, vs')"
    and g: "generate_response_context sv q (fst (context_loop (py_repr sv) docs [] [])) = Inr answer"
  shows "app_query sv vs data =
           (Inr \<lparr>status = 200,
                 body = [(''response'', PStr (py_str (py_repr sv) answer)),
                         (''sources'', PList (snd (context_loop (py_repr sv) docs [] [])))]\<rparr>,
            vs',
            [SearchCall q 3, GenerateFromContext q (fst (context_loop (py_repr sv) docs [] []))])"
proof (cases "docs = []")
  case True
  with q s g show ?thesis by (simp add: app_query_def)
next
  case False
  with q s g show ?thesis by (simp add: app_query_def case_prod_beta)
qed

lemma app_query_returns: "\<exists>resp. fst (app_query sv vs data) = Inr resp"
  by (auto simp: app_query_def Let_def case_prod_beta split: sum.splits prod.splits)

section \<open>Sources of a query answer (C1)\<close>

text \<open>
  C1, as amended. The query handler of app.py puts into \<^verbatim>\<open>sources\<close> the source of every
  well-shaped result, in the order of the results, and removes nothing: a source that two
  results share appears twice.
\<close>

theorem app_query_sources_in_result_order:
  assumes "dict_get data ''query'' [] = q" and "q \<noteq> []"
    and "search sv vs q 3 = (Inr docs, vs')"
    and "generate_response_context sv q (fst (context_loop (py_repr sv) docs [] [])) = Inr answer"
  shows "\<exists>resp. fst (app_query sv vs data) = Inr resp \<and>
           map_of (body resp) ''sources'' = Some (PList (map doc_source (filter well_shaped docs)))"
  using app_query_success [OF assms] context_loop_sources [of "py_repr sv" docs "[]" "[]"]
  by simp

theorem app_query_sources_in_result_order_witness:
  "\<exists>resp. fst (app_query example_services example_index [(''query'', ''how do I reset'')]) = Inr resp \<and>
      map_of (body resp) ''sources'' = Some (PList [PStr ''a.pdf'', PStr ''b.pdf'', PStr ''a.pdf''])"
proof -
  let ?docs = "take 3 (map chunk_value (documents example_index))"
  have h1: "dict_get [(''query'', ''how do I reset'')] ''query'' [] = ''how do I reset''"
    by (simp add: dict_get_def)
  have h2: "''how do I reset'' \<noteq> []"
    by simp
  have h3: "search example_services example_index ''how do I reset'' 3 = (Inr ?docs, example_index)"
    by (simp add: example_services_def example_search_def)
  have h4: "generate_response_context example_services ''how do I reset''
              (fst (context_loop (py_repr example_services) ?docs [] [])) =
            Inr (PStr ''Hold the power button.'')"
    by (simp add: example_services_def example_generate_context_def)
  have "map doc_source (filter well_shaped ?docs) = [PStr ''a.pdf'', PStr ''b.pdf'', PStr ''a.pdf'']"
    by (simp add: example_index_def chunk_value_def)
  with app_query_sources_in_result_order [OF h1 h2 h3 h4] show ?thesis
    by simp
qed

text \<open>
  C1 as the specification states it fails: three results with the sources a.pdf, b.pdf,
  a.pdf give the sources list a.pdf, b.pdf, a.pdf, which is not its stable deduplication.
\<close>

theorem app_query_sources_not_deduplicated:
  "fst (app_query example_services example_index [(''query'', ''how do I reset'')]) =
     Inr \<lparr>status = 200,
          body = [(''response'', PStr ''Hold the power button.''),
                  (''sources'', PList [PStr ''a.pdf'', PStr ''b.pdf'', PStr ''a.pdf''])]\<rparr>
   \<and> [PStr ''a.pdf'', PStr ''b.pdf'', PStr ''a.pdf''] \<noteq>
       stable_dedup [PStr ''a.pdf'', PStr ''b.pdf'', PStr ''a.pdf'']"
  by (simp add: app_query_def Let_def example_defs stable_dedup_def)

section \<open>Results of the wrong shape (C10)\<close>

text \<open>
  C10. In the query handler of app.py a retrieved result that is not a dictionary with
  both a \<^verbatim>\<open>content\<close> and a \<^verbatim>\<open>source\<close> key is left out of the context and of the sources:
  the loop, and with it the whole answer of the handler, is what it would be had the
  index not returned that result. The handler returns a response; it does not raise.
\<close>

theorem app_query_skips_malformed_results:
  assumes "\<not> well_shaped doc"
    and "dict_get data ''query'' [] = q" and "q \<noteq> []"
    and "search sv vs q 3 = (Inr (xs @ doc # ys), vs')"
  shows "context_loop (py_repr sv) (xs @ doc # ys) [] [] = context_loop (py_repr sv) (xs @ ys) [] []
       \<and> app_query sv vs data = app_query (sv\<lparr>search := \<lambda>vs q k. (Inr (xs @ ys), vs')\<rparr>) vs data
       \<and> (\<exists>resp. fst (app_query sv vs data) = Inr resp)"
proof -
  have loop: "context_loop (py_repr sv) (xs @ doc # ys) [] [] = context_loop (py_repr sv) (xs @ ys) [] []"
    using assms(1) by (rule context_loop_drop)
  have "app_query sv vs data = app_query (sv\<lparr>search := \<lambda>vs q k. (Inr (xs @ ys), vs')\<rparr>) vs data"
    using assms(2-4) loop by (simp add: app_query_def Let_def case_prod_beta split: sum.splits)
  with loop app_query_returns [of sv vs data] show ?thesis
    by simp
qed

theorem app_query_skips_malformed_results_witness:
  "\<not> well_shaped (PStr ''stray text'')
   \<and> context_loop (py_repr malformed_services)
        ([PDict [(''content'', PStr ''Press the power button.''), (''source'', PStr ''a.pdf'')]]
         @ PStr ''stray text'' # [PDict [(''content'', PStr ''No source here.'')]]) [] [] =
      (nl @ ''From a.pdf:'' @ nl @ ''Press the power button.'' @ nl @ nl, [PStr ''a.pdf''])
   \<and> fst (app_query malformed_services empty_index [(''query'', ''reset'')]) =
      Inr \<lparr>status = 200,
           body = [(''response'', PStr ''Hold the power button.''),
                   (''sources'', PList [PStr ''a.pdf''])]\<rparr>"
  using app_query_skips_malformed_results
    [of "PStr ''stray text''" "[(''query'', ''reset'')]" "''reset''" malformed_services empty_index
        "[PDict [(''content'', PStr ''Press the power button.''), (''source'', PStr ''a.pdf'')]]"
        "[PDict [(''content'', PStr ''No source here.'')]]" empty_index]
  by (simp add: app_query_def Let_def example_defs)

section \<open>The query handler of app2.py, step by step\<close>

lemma app2_search_text: "search_text (snd (app2_search sv vs eq pf n)) = Some eq"
  by (simp add: app2_search_def split: option.splits)


text \<open>
  A query that is not empty always gets a response, leaves the session object of
  \<open>append_history\<close>, calls the index once with the enhanced query, and calls the
  generator at most once, with the raw query.
\<close>

lemma app2_query_shape:
  assumes q: "dict_get data ''query'' [] = q" "q \<noteq> []"
  shows "\<exists>r vs' call rest.
           app2_query sv vs sess data = (Inr r, vs', append_history sess q, call # rest) \<and>
           search_text call = Some (enhance_query (session_history (append_history sess q)) q) \<and>
           (rest = [] \<or> (\<exists>docs. rest = [GenerateFromDocs q docs (map_of data ''product'')]))"
proof -
  let ?eq = "enhance_query (session_history (append_history sess q)) q"
  obtain res vs' call where
    s: "app2_search sv vs ?eq (map_of data ''product'') 5 = ((res, vs'), call)"
    by (metis surj_pair)
  have t: "search_text call = Some ?eq"
    using app2_search_text [of sv vs ?eq "map_of data ''product''" 5] s by simp
  show ?thesis
    using q s t by (auto simp: app2_query_def Let_def split: sum.splits option.splits)
qed


lemma app2_query_search_texts:
  assumes "dict_get data ''query'' [] = q" and "q \<noteq> []"
  shows "List.map_filter search_text (snd (snd (snd (app2_query sv vs sess data)))) =
           [enhance_query (session_history (append_history sess q)) q]"
proof -
  obtain r vs' call rest where
    run: "app2_query sv vs sess data = (Inr r, vs', append_history sess q, call # rest)"
    and call: "search_text call = Some (enhance_query (session_history (append_history sess q)) q)"
    and rest: "rest = [] \<or> (\<exists>docs. rest = [GenerateFromDocs q docs (map_of data ''product'')])"
    using app2_query_shape [OF assms, of sv vs sess] by blast
  from rest have "List.map_filter search_text rest = []"
    by auto
  with run call show ?thesis
    by simp
qed

lemma app2_query_not_found:
  assumes "dict_get data ''query'' [] = q" and "q \<noteq> []"
    and "app2_search sv vs (enhance_query (session_history (append_history sess q)) q)
           (map_of data ''product'') 5 = ((Inr [], vs'), call)"
  shows "app2_query sv vs sess data =
           (Inr not_found_response, vs', append_history sess q, [call])"
  using assms by (simp add: app2_query_def Let_def)

text \<open>The history of the session object after lines 109 to 115.\<close>

lemma session_history_append:
  "session_history (append_history sess q) =
     drop (length (session_history sess @ [q]) - 5) (session_history sess @ [q])"
  by (simp add: append_history_def session_history_def Let_def)

lemma session_history_append_snoc:
  "session_history (append_history sess q) =
     drop (length (session_history sess) - 4) (session_history sess) @ [q]"
  by (simp add: session_history_append)

lemma append_history_contents:
  "contents (append_history sess q) =
     (contents sess)(''history'' \<mapsto> session_history (append_history sess q))"
  by (simp add: append_history_def session_history_def Let_def)

text \<open>
  The flag after lines 109 to 115: set when the session had no history (line 110) or
  when the history was cut (line 115), that is when it had five entries or more before
  the append; the append alone leaves it as it was.
\<close>

lemma append_history_modified:
  "modified (append_history sess q) =
     (modified sess \<or> contents sess ''history'' = None \<or> 5 \<le> length (session_history sess))"
  by (auto simp: append_history_def session_history_def Let_def)

lemma enhance_query_follow_up:
  assumes "session_history sess \<noteq> []"
  shows "enhance_query (session_history (append_history sess q)) q =
           join '' '' (butlast (session_history (append_history sess q))) @ nl @ nl @
           ''Current question: '' @ q"
proof -
  have "drop (length (session_history sess) - 4) (session_history sess) \<noteq> []"
    using assms by (cases "session_history sess") auto
  then have "length (session_history (append_history sess q)) > 1"
    by (simp add: session_history_append_snoc)
  then show ?thesis
    by (simp add: enhance_query_def)
qed

section \<open>No results (C2)\<close>

text \<open>
  C2, on app.py. With an empty index the search returns no result; the query handler of
  app.py then calls the generator with the empty context and answers with what the
  generator said: there is no not-found response, and the generator is invoked.
  (In app2.py the same request ends at \<open>not_found_response\<close> with the search as its only
  call, see \<open>app2_query_not_found\<close>.)
\<close>

theorem app_query_empty_results_reach_generator:
  "app_query example_services empty_index [(''query'', ''anything'')] =
     (Inr \<lparr>status = 200,
           body = [(''response'', PStr ''Hold the power button.''), (''sources'', PList [])]\<rparr>,
      empty_index,
      [SearchCall ''anything'' 3, GenerateFromContext ''anything'' []])"
  by (simp add: app_query_def Let_def example_defs)

section \<open>Query enhancement (C3, C4)\<close>

text \<open>
  C3, as amended. When the session has no history entry before the query is appended
  (no \<^verbatim>\<open>history\<close> key, or an empty list), the enhanced query is the raw query, and the raw
  query is the text handed to the index. When the session has an entry, the text handed
  to the index is the earlier entries, the marker and the query, which is not the raw
  query.
\<close>

theorem first_turn_query_not_enhanced:
  assumes "dict_get data ''query'' [] = q" and "q \<noteq> []"
  shows "(session_history sess = [] \<longrightarrow>
            enhance_query (session_history (append_history sess q)) q = q
          \<and> List.map_filter search_text (snd (snd (snd (app2_query sv vs sess data)))) = [q])
       \<and> (session_history sess \<noteq> [] \<longrightarrow>
            List.map_filter search_text (snd (snd (snd (app2_query sv vs sess data)))) =
              [join '' '' (butlast (session_history (append_history sess q))) @ nl @ nl @
               ''Current question: '' @ q]
          \<and> join '' '' (butlast (session_history (append_history sess q))) @ nl @ nl @
               ''Current question: '' @ q \<noteq> q)"
proof (intro conjI impI)
  assume empty: "session_history sess = []"
  then show e: "enhance_query (session_history (append_history sess q)) q = q"
    by (simp add: session_history_append enhance_query_def)
  show "List.map_filter search_text (snd (snd (snd (app2_query sv vs sess data)))) = [q]"
    using app2_query_search_texts [OF assms, of sv vs sess] e by simp
next
  assume "session_history sess \<noteq> []"
  then show "List.map_filter search_text (snd (snd (snd (app2_query sv vs sess data)))) =
      [join '' '' (butlast (session_history (append_history sess q))) @ nl @ nl @
       ''Current question: '' @ q]"
    using app2_query_search_texts [OF assms, of sv vs sess] enhance_query_follow_up [of sess q]
    by simp
next
  have "length (join '' '' (butlast (session_history (append_history sess q))) @ nl @ nl @
          ''Current question: '' @ q) > length q"
    by simp
  then show "join '' '' (butlast (session_history (append_history sess q))) @ nl @ nl @
      ''Current question: '' @ q \<noteq> q"
    by (metis less_irrefl)
qed

theorem first_turn_query_not_enhanced_witness:
  "session_history (open_session no_session) = []
   \<and> enhance_query (session_history (append_history (open_session no_session) ''what is X''))
        ''what is X'' = ''what is X''
   \<and> List.map_filter search_text
       (snd (snd (snd (app2_query example_services example_index (open_session no_session)
                         [(''query'', ''what is X'')])))) = [''what is X'']
   \<and> session_history (open_session one_turn_session) \<noteq> []
   \<and> List.map_filter search_text
       (snd (snd (snd (app2_query example_services example_index (open_session one_turn_session)
                         [(''query'', ''and then?'')])))) =
       [''what is X'' @ [CHR 0x0A, CHR 0x0A] @ ''Current question: and then?'']"
proof -
  have h0: "session_history (open_session no_session) = []"
    by (simp add: session_history_def no_session_def open_session_def)
  have h1: "dict_get [(''query'', ''what is X'')] ''query'' [] = ''what is X''"
    by (simp add: dict_get_def)
  have h2: "''what is X'' \<noteq> []"
    by simp
  have k0: "session_history (open_session one_turn_session) \<noteq> []"
    by (simp add: session_history_def one_turn_session_def open_session_def)
  have k1: "dict_get [(''query'', ''and then?'')] ''query'' [] = ''and then?''"
    by (simp add: dict_get_def)
  have k2: "''and then?'' \<noteq> []"
    by simp
  have k3: "session_history (append_history (open_session one_turn_session) ''and then?'') =
              [''what is X'', ''and then?'']"
    by (simp add: session_history_append_snoc)
       (simp add: session_history_def one_turn_session_def open_session_def)
  from first_turn_query_not_enhanced
         [OF h1 h2, of "open_session no_session" example_services example_index]
       first_turn_query_not_enhanced
         [OF k1 k2, of "open_session one_turn_session" example_services example_index]
       h0 k0 k3
  show ?thesis by (simp add: nl_def)
qed

text \<open>
  C3 as the specification states it fails: a history of one entry has fewer than two
  entries, and the query that follows it is enhanced all the same.
\<close>

theorem one_prior_turn_query_enhanced:
  "length (session_history (open_session one_turn_session)) < 2
   \<and> List.map_filter search_text
       (snd (snd (snd (app2_query example_services example_index (open_session one_turn_session)
                         [(''query'', ''and then?'')])))) =
     [''what is X'' @ [CHR 0x0A, CHR 0x0A] @ ''Current question: and then?'']
   \<and> ''what is X'' @ [CHR 0x0A, CHR 0x0A] @ ''Current question: and then?'' \<noteq> ''and then?''"
  by (simp add: app2_query_def Let_def app2_search_def append_history_def session_history_def
        enhance_query_def example_defs)



section \<open>The history window (C5)\<close>

text \<open>
  On the session object of the request, lines 109 to 115 build the window: the old
  history, the query appended, cut to its last five entries.
\<close>

lemma history_window_in_request:
  assumes "dict_get data ''query'' [] = q" and "q \<noteq> []"
  shows "\<exists>r vs' sess' calls.
           app2_query sv vs sess data = (r, vs', sess', calls) \<and>
           contents sess' = (contents sess)(''history'' \<mapsto> session_history sess') \<and>
           session_history sess' =
             drop (length (session_history sess @ [q]) - 5) (session_history sess @ [q]) \<and>
           length (session_history sess') \<le> 5 \<and>
           last (session_history sess') = q"
proof -
  obtain r vs' calls where
    run: "app2_query sv vs sess data = (Inr r, vs', append_history sess q, calls)"
    using app2_query_shape [OF assms, of sv vs sess] by blast
  have h: "session_history (append_history sess q) =
             drop (length (session_history sess @ [q]) - 5) (session_history sess @ [q])"
    by (rule session_history_append)
  have len: "length (session_history (append_history sess q)) \<le> 5"
    by (simp add: h)
  have lst: "last (session_history (append_history sess q)) = q"
    by (simp add: session_history_append_snoc)
  show ?thesis
    using run h len lst append_history_contents [of sess q] by blast
qed

text \<open>
  What the request leaves stored. The first query of a session is stored, since line
  110 assigned to the session. A query that follows on a stored history of fewer than
  five entries is appended in place only: the flag stays unset and what was stored
  before the request is what is stored after it.
\<close>

lemma first_query_stored:
  assumes "dict_get data ''query'' [] = q" and "q \<noteq> []"
    and "stored ''history'' = None"
  shows "fst (snd (snd (app2_query_request sv vs stored data))) = stored(''history'' \<mapsto> [q])"
proof -
  obtain r vs' calls where
    run: "app2_query sv vs (open_session stored) data =
            (Inr r, vs', append_history (open_session stored) q, calls)"
    using app2_query_shape [OF assms(1,2), of sv vs "open_session stored"] by blast
  have "append_history (open_session stored) q =
          \<lparr>contents = stored(''history'' \<mapsto> [q]), modified = True\<rparr>"
    using assms(3) by (simp add: append_history_def session_history_def open_session_def Let_def)
  with run show ?thesis
    by (simp add: app2_query_request_def save_session_def)
qed

lemma follow_up_query_not_stored:
  assumes "dict_get data ''query'' [] = q" and "q \<noteq> []"
    and "stored ''history'' = Some h" and "length h < 5"
  shows "fst (snd (snd (app2_query_request sv vs stored data))) = stored"
proof -
  obtain r vs' calls where
    run: "app2_query sv vs (open_session stored) data =
            (Inr r, vs', append_history (open_session stored) q, calls)"
    using app2_query_shape [OF assms(1,2), of sv vs "open_session stored"] by blast
  have "\<not> modified (append_history (open_session stored) q)"
    using assms(3,4) by (simp add: append_history_modified session_history_def open_session_def)
  with run show ?thesis
    by (simp add: app2_query_request_def save_session_def)
qed

text \<open>
  C5, on app2.py. A session without history asks \<^verbatim>\<open>what is X\<close>: the history stored
  afterwards is that one query. The same session then asks \<^verbatim>\<open>and then?\<close>: during the
  request the history of the session object is the two queries, but the object is not
  flagged as modified, and the history stored after the request is still the first query
  alone. The query was not appended to the conversation history of the session, and the
  most recent query is not its last entry.
\<close>

theorem follow_up_query_lost_from_session:
  "fst (snd (snd (app2_query_request example_services example_index no_session
                    [(''query'', ''what is X'')]))) ''history'' = Some [''what is X'']
   \<and> one_turn_session ''history'' = Some [''what is X'']
   \<and> session_history
         (fst (snd (snd (app2_query example_services example_index (open_session one_turn_session)
                           [(''query'', ''and then?'')])))) = [''what is X'', ''and then?'']
   \<and> \<not> modified
         (fst (snd (snd (app2_query example_services example_index (open_session one_turn_session)
                           [(''query'', ''and then?'')]))))
   \<and> fst (snd (snd (app2_query_request example_services example_index one_turn_session
                        [(''query'', ''and then?'')]))) ''history'' = Some [''what is X'']"
proof -
  have q1: "dict_get [(''query'', ''what is X'')] ''query'' [] = ''what is X''"
    by (simp add: dict_get_def)
  have q2: "dict_get [(''query'', ''and then?'')] ''query'' [] = ''and then?''"
    by (simp add: dict_get_def)
  have n1: "''what is X'' \<noteq> []"
    by simp
  have n2: "''and then?'' \<noteq> []"
    by simp
  have s0: "no_session ''history'' = None"
    by (simp add: no_session_def)
  have s1: "one_turn_session ''history'' = Some [''what is X'']"
    by (simp add: one_turn_session_def)
  have a: "fst (snd (snd (app2_query_request example_services example_index no_session
                    [(''query'', ''what is X'')]))) ''history'' = Some [''what is X'']"
    using first_query_stored
            [where stored = no_session and sv = example_services and vs = example_index,
             OF q1 n1 s0]
    by simp
  obtain r vs' calls where
    run: "app2_query example_services example_index (open_session one_turn_session)
            [(''query'', ''and then?'')] =
          (Inr r, vs', append_history (open_session one_turn_session) ''and then?'', calls)"
    using app2_query_shape [OF q2 n2, of example_services example_index "open_session one_turn_session"]
    by blast
  have b: "session_history (append_history (open_session one_turn_session) ''and then?'') =
             [''what is X'', ''and then?'']"
    by (simp add: session_history_append_snoc)
       (simp add: session_history_def one_turn_session_def open_session_def)
  have c: "\<not> modified (append_history (open_session one_turn_session) ''and then?'')"
    by (simp add: append_history_modified session_history_def one_turn_session_def open_session_def)
  have d: "fst (snd (snd (app2_query_request example_services example_index one_turn_session
                        [(''query'', ''and then?'')]))) ''history'' = Some [''what is X'']"
    using follow_up_query_not_stored
            [where stored = one_turn_session and sv = example_services and vs = example_index,
             OF q2 n2 s1] s1
    by simp
  from a s1 b c d run show ?thesis
    by simp
qed

section \<open>Failures inside the query handlers (C6)\<close>

text \<open>
  Both query handlers catch what the index and the generator raise and answer with their
  fallback, status 500. The fallback of app.py carries an empty sources list; the
  fallback of app2.py carries the text of the exception under \<^verbatim>\<open>error\<close> instead.
\<close>

lemma app_fallback_shape:
  "status (app_fallback e) = 500 \<and> map_of (body (app_fallback e)) ''sources'' = Some (PList [])"
  by (simp add: app_fallback_def)

lemma app2_fallback_shape:
  "status (app2_fallback e) = 500 \<and> map_of (body (app2_fallback e)) ''sources'' = None
   \<and> map_of (body (app2_fallback e)) ''error'' = Some (PStr (str_of_exception e))"
  by (simp add: app2_fallback_def)

lemma app_query_search_failure:
  assumes "dict_get data ''query'' [] = q" and "q \<noteq> []"
    and "search sv vs q 3 = (Inl e, vs')"
  shows "app_query sv vs data = (Inr (app_fallback e), vs', [SearchCall q 3])"
  using assms by (simp add: app_query_def)

lemma app_query_generation_failure:
  assumes "dict_get data ''query'' [] = q" and "q \<noteq> []"
    and "search sv vs q 3 = (Inr docs, vs')"
    and "generate_response_context sv q (fst (context_loop (py_repr sv) docs [] [])) = Inl e"
  shows "fst (app_query sv vs data) = Inr (app_fallback e)"
proof (cases "docs = []")
  case True
  with assms show ?thesis by (simp add: app_query_def)
next
  case False
  with assms show ?thesis by (simp add: app_query_def case_prod_beta)
qed

lemma app2_query_search_failure:
  assumes "dict_get data ''query'' [] = q" and "q \<noteq> []"
    and "app2_search sv vs (enhance_query (session_history (append_history sess q)) q)
           (map_of data ''product'') 5 = ((Inl e, vs'), call)"
  shows "app2_query sv vs sess data = (Inr (app2_fallback e), vs', append_history sess q, [call])"
  using assms by (simp add: app2_query_def Let_def)

lemma app2_query_generation_failure:
  assumes "dict_get data ''query'' [] = q" and "q \<noteq> []"
    and "app2_search sv vs (enhance_query (session_history (append_history sess q)) q)
           (map_of data ''product'') 5 = ((Inr docs, vs'), call)"
    and "docs \<noteq> []"
    and "generate_response_docs sv q docs (map_of data ''product'') = Inl e"
  shows "fst (app2_query sv vs sess data) = Inr (app2_fallback e)"
  using assms by (simp add: app2_query_def Let_def)

text \<open>
  C6, on app2.py. When the search raises, the query handler of app2.py answers with
  status 500 and a body of the two keys \<^verbatim>\<open>response\<close> and \<^verbatim>\<open>error\<close>: the body has no
  \<^verbatim>\<open>sources\<close> key, hence no empty sources list. (The fallback of app.py has the key,
  and so have the two other answers of the query handler of app2.py.)
\<close>

theorem app2_query_failure_without_sources:
  "fst (app2_query failing_services empty_index (open_session no_session)
          [(''query'', ''how do I reset'')]) =
     Inr \<lparr>status = 500,
          body = [(''response'', PStr ''I'm sorry, there was an error processing your request.''),
                  (''error'', PStr ''index unavailable'')]\<rparr>
   \<and> map_of [(''response'', PStr ''I'm sorry, there was an error processing your request.''),
              (''error'', PStr ''index unavailable'')] ''sources'' = None"
  by (simp add: app2_query_def Let_def app2_search_def app2_fallback_def example_defs)

section \<open>Empty queries (C8)\<close>

lemma empty_query_request_keeps_session:
  assumes "dict_get data ''query'' [] = []"
  shows "app2_query_request sv vs stored data =
           (Inr \<lparr>status = 400, body = [(''error'', PStr ''Query is empty'')]\<rparr>, vs, stored, [])"
  using assms
  by (simp add: app2_query_request_def app2_query_def save_session_def open_session_def)

text \<open>
  C8. A request whose query text is empty (or that has no \<^verbatim>\<open>query\<close> key) is answered by
  both query handlers with status 400 and the error \<^verbatim>\<open>Query is empty\<close>; the vector store
  and the session are returned as they were, and no collaborator is called.
\<close>

theorem empty_query_rejected:
  assumes "dict_get data ''query'' [] = []"
  shows "app_query sv vs data =
           (Inr \<lparr>status = 400, body = [(''error'', PStr ''Query is empty'')]\<rparr>, vs, [])
       \<and> app2_query sv vs sess data =
           (Inr \<lparr>status = 400, body = [(''error'', PStr ''Query is empty'')]\<rparr>, vs, sess, [])"
  using assms by (simp add: app_query_def app2_query_def)

theorem empty_query_rejected_witness:
  "dict_get [(''query'', []), (''product'', ''DreamStation'')] ''query'' [] = []
   \<and> app_query example_services example_index [(''query'', []), (''product'', ''DreamStation'')] =
       (Inr \<lparr>status = 400, body = [(''error'', PStr ''Query is empty'')]\<rparr>, example_index, [])
   \<and> app2_query example_services example_index (open_session two_turn_session)
        [(''query'', []), (''product'', ''DreamStation'')] =
       (Inr \<lparr>status = 400, body = [(''error'', PStr ''Query is empty'')]\<rparr>, example_index,
        open_session two_turn_session, [])"
  using empty_query_rejected
    [of "[(''query'', []), (''product'', ''DreamStation'')]" example_services example_index
        "open_session two_turn_session"]
  by (simp add: dict_get_def)

section \<open>Uploads whose chunking fails (C7)\<close>

text \<open>
  C7. When \<^verbatim>\<open>process_pdf\<close> raises for an uploaded document, both upload handlers answer
  with status 500 and the text of the exception as the error, the vector store is what it
  was, and the calls made are the save of the file and the failed \<^verbatim>\<open>process_pdf\<close>:
  \<^verbatim>\<open>add_documents\<close> is not called.
\<close>

theorem failed_chunking_leaves_index:
  assumes "file_filename req = Some name" and "name \<noteq> []" and "allowed_file name"
    and "filepath = path_join sv (UPLOAD_FOLDER sv) (secure_filename sv name)"
    and "product_name =
           (case form_product_name req of
              None \<Rightarrow> fst (splitext sv (secure_filename sv name))
            | Some p \<Rightarrow> p)"
    and "save sv filepath = None"
    and "process_pdf sv filepath product_name = Inl e"
  shows "app_upload_file sv vs req =
           (Inr \<lparr>status = 500, body = [(''error'', PStr (str_of_exception e))]\<rparr>, vs,
            [SaveCall filepath, ProcessPdfCall filepath product_name])
       \<and> app2_upload_file sv vs req =
           (Inr \<lparr>status = 500, body = [(''error'', PStr (str_of_exception e))]\<rparr>, vs,
            [SaveCall filepath, ProcessPdfCall filepath product_name])
       \<and> filter is_add_documents (snd (snd (app_upload_file sv vs req))) = []
       \<and> filter is_add_documents (snd (snd (app2_upload_file sv vs req))) = []"
proof -
  have a: "app_upload_file sv vs req =
           (Inr \<lparr>status = 500, body = [(''error'', PStr (str_of_exception e))]\<rparr>, vs,
            [SaveCall filepath, ProcessPdfCall filepath product_name])"
    using assms by (simp add: app_upload_file_def Let_def error_response_def)
  have b: "app2_upload_file sv vs req =
           (Inr \<lparr>status = 500, body = [(''error'', PStr (str_of_exception e))]\<rparr>, vs,
            [SaveCall filepath, ProcessPdfCall filepath product_name])"
    using assms by (simp add: app2_upload_file_def Let_def error_response_def)
  from a b show ?thesis by simp
qed

lemma allowed_manual: "allowed_file ''manual.PDF''"
  by (simp add: allowed_file_def rsplit_dot_last_def lower_def lower_char_def ALLOWED_EXTENSIONS_def)

theorem failed_chunking_leaves_index_witness:
  "allowed_file ''manual.PDF''
   \<and> process_pdf example_services ''data/manuals/manual.PDF'' [] = Inl (Exception ''no text found'')
   \<and> app_upload_file example_services example_index
        \<lparr>file_filename = Some ''manual.PDF'', form_product_name = Some []\<rparr> =
       (Inr \<lparr>status = 500, body = [(''error'', PStr ''no text found'')]\<rparr>, example_index,
        [SaveCall ''data/manuals/manual.PDF'', ProcessPdfCall ''data/manuals/manual.PDF'' []])
   \<and> app2_upload_file example_services example_index
        \<lparr>file_filename = Some ''manual.PDF'', form_product_name = Some []\<rparr> =
       (Inr \<lparr>status = 500, body = [(''error'', PStr ''no text found'')]\<rparr>, example_index,
        [SaveCall ''data/manuals/manual.PDF'', ProcessPdfCall ''data/manuals/manual.PDF'' []])"
proof -
  let ?req = "\<lparr>file_filename = Some ''manual.PDF'', form_product_name = Some []\<rparr>"
  have h1: "file_filename ?req = Some ''manual.PDF''" by simp
  have h2: "''manual.PDF'' \<noteq> []" by simp
  have h3: "allowed_file ''manual.PDF''" by (rule allowed_manual)
  have h4: "''data/manuals/manual.PDF'' =
              path_join example_services (UPLOAD_FOLDER example_services)
                (secure_filename example_services ''manual.PDF'')"
    by (simp add: example_defs)
  have h5: "[] = (case form_product_name ?req of
                    None \<Rightarrow> fst (splitext example_services (secure_filename example_services ''manual.PDF''))
                  | Some p \<Rightarrow> p)"
    by simp
  have h6: "save example_services ''data/manuals/manual.PDF'' = None"
    by (simp add: example_defs)
  have h7: "process_pdf example_services ''data/manuals/manual.PDF'' [] = Inl (Exception ''no text found'')"
    by (simp add: example_defs)
  from failed_chunking_leaves_index [OF h1 h2 h3 h4 h5 h6 h7, of example_index] h3 h7
  show ?thesis by simp
qed

section \<open>The product listing (C9)\<close>

lemma set_add_set: "set (set_add x s) = insert x (set s)"
  by (auto simp: set_add_def)

lemma set_add_distinct: "distinct s \<Longrightarrow> distinct (set_add x s)"
  by (simp add: set_add_def)

lemma products_loop_set:
  "set (products_loop docs ps) =
     set ps \<union> {p. p \<noteq> [] \<and> (\<exists>doc \<in> set docs. map_of doc ''product'' = Some p)}"
  by (induction docs ps rule: products_loop.induct) (auto simp: set_add_set split: option.splits)

lemma products_loop_distinct: "distinct ps \<Longrightarrow> distinct (products_loop docs ps)"
  by (induction docs ps rule: products_loop.induct) (auto simp: set_add_distinct split: option.splits)

text \<open>
  C9. Whatever order the iteration of a Python set takes, the product listing answers
  with a list without repetition whose elements are exactly the non-empty values found
  under the key \<^verbatim>\<open>product\<close> in the documents of the vector store; a document without
  the key, or with an empty product, contributes nothing. The vector store is returned
  as it was.
\<close>

theorem list_products_distinct_labels:
  assumes "\<And>xs. mset (set_order sv xs) = mset xs"
  shows "\<exists>ps. list_products sv vs =
                (Inr \<lparr>status = 200, body = [(''products'', PList (map PStr ps))]\<rparr>, vs) \<and>
              distinct ps \<and>
              set ps = {p. p \<noteq> [] \<and> (\<exists>doc \<in> set (documents vs). map_of doc ''product'' = Some p)}"
proof -
  let ?collected = "products_loop (documents vs) []"
  let ?ps = "set_order sv ?collected"
  have m: "mset ?ps = mset ?collected"
    by (rule assms)
  have d: "distinct ?ps"
    using mset_eq_imp_distinct_iff [OF m] products_loop_distinct [of "[]" "documents vs"] by simp
  have s: "set ?ps = {p. p \<noteq> [] \<and> (\<exists>doc \<in> set (documents vs). map_of doc ''product'' = Some p)}"
    using mset_eq_setD [OF m] by (simp add: products_loop_set)
  have "list_products sv vs =
          (Inr \<lparr>status = 200, body = [(''products'', PList (map PStr ?ps))]\<rparr>, vs)"
    by (simp add: list_products_def)
  with d s show ?thesis by blast
qed

theorem list_products_distinct_labels_witness:
  "(\<forall>xs. mset (set_order example_services xs) = mset xs)
   \<and> list_products example_services example_index =
       (Inr \<lparr>status = 200,
             body = [(''products'', PList [PStr ''IntelliVue'', PStr ''DreamStation''])]\<rparr>,
        example_index)
   \<and> (\<exists>ps. list_products example_services example_index =
                (Inr \<lparr>status = 200, body = [(''products'', PList (map PStr ps))]\<rparr>, example_index) \<and>
              distinct ps \<and>
              set ps = {p. p \<noteq> [] \<and>
                          (\<exists>doc \<in> set (documents example_index). map_of doc ''product'' = Some p)})"
proof -
  have h: "\<And>xs. mset (set_order example_services xs) = mset xs"
    by (simp add: example_services_def)
  have p: "products_loop (documents example_index) [] = [''DreamStation'', ''IntelliVue'']"
    by (simp add: example_index_def set_add_def)
  have v: "list_products example_services example_index =
       (Inr \<lparr>status = 200,
             body = [(''products'', PList [PStr ''IntelliVue'', PStr ''DreamStation''])]\<rparr>,
        example_index)"
    by (simp add: list_products_def p example_services_def)
  have a: "\<forall>xs. mset (set_order example_services xs) = mset xs"
    by (intro allI h)
  have e: "\<exists>ps. list_products example_services example_index =
                (Inr \<lparr>status = 200, body = [(''products'', PList (map PStr ps))]\<rparr>, example_index) \<and>
              distinct ps \<and>
              set ps = {p. p \<noteq> [] \<and>
                          (\<exists>doc \<in> set (documents example_index). map_of doc ''product'' = Some p)}"
    by (rule list_products_distinct_labels [OF h])
  show ?thesis
    by (intro conjI a v e)
qed


end
